theory Spec2Isabelle
  imports Main
begin

section \<open>The parsed document\<close>

text \<open>
  The matcher works on a spaCy \<open>Doc\<close>: a sequence of tokens, each carrying its position
  \<open>i\<close>, its text and trailing whitespace, its lemma, its part-of-speech tag, its
  dependency label and the position of its syntactic head (a root token is its own head).
  The fields \<open>tok_i\<close>, \<open>tok_text\<close>, \<open>tok_whitespace\<close>, \<open>tok_lemma\<close>, \<open>tok_pos\<close> and
  \<open>tok_dep\<close> are the attributes \<open>i\<close>, \<open>text\<close>, \<open>whitespace_\<close>, \<open>lemma_\<close>, \<open>pos_\<close> and
  \<open>dep_\<close> of a token, and \<open>tok_head_i\<close> is \<open>token.head.i\<close>.
\<close>

record token =
  tok_i :: nat
  tok_text :: string
  tok_whitespace :: string
  tok_lemma :: string
  tok_pos :: string
  tok_dep :: string
  tok_head_i :: nat

type_synonym doc = "token list"

text \<open>
  What the parser guarantees of every \<open>Doc\<close>: the token at position \<open>k\<close> has \<open>i = k\<close>,
  and every head is a token of the same document.
\<close>

definition wf_doc :: "doc \<Rightarrow> bool" where
  "wf_doc d = (map tok_i d = [0..<length d] \<and> list_all (\<lambda>t. tok_head_i t < length d) d)"

text \<open>\<open>token.head\<close>: the token this token is attached to.\<close>

definition head :: "doc \<Rightarrow> token \<Rightarrow> token" where
  "head d t = d ! tok_head_i t"

text \<open>\<open>token.children\<close>: the tokens attached to this token, in document order.\<close>

definition children :: "doc \<Rightarrow> token \<Rightarrow> token list" where
  "children d t = filter (\<lambda>c. tok_head_i c = tok_i t \<and> tok_i c \<noteq> tok_i t) d"

text \<open>
  \<open>descends n d a j\<close>: following at most \<open>n\<close> head links from position \<open>j\<close> reaches
  position \<open>a\<close>, so that token \<open>j\<close> belongs to the subtree of token \<open>a\<close>.
\<close>

fun descends :: "nat \<Rightarrow> doc \<Rightarrow> nat \<Rightarrow> nat \<Rightarrow> bool" where
  "descends 0 d a j = (j = a)"
| "descends (Suc n) d a j =
     (j = a \<or> (j < length d \<and> tok_head_i (d ! j) \<noteq> j \<and> descends n d a (tok_head_i (d ! j))))"

text \<open>
  \<open>token.right_edge\<close>: the rightmost token of the token's subtree, that is the highest
  position among the token and all its transitive dependents.
\<close>

definition right_edge_i :: "doc \<Rightarrow> token \<Rightarrow> nat" where
  "right_edge_i d t =
     fold max (filter (\<lambda>j. descends (length d) d (tok_i t) j) [0..<length d]) (tok_i t)"

definition right_edge :: "doc \<Rightarrow> token \<Rightarrow> token" where
  "right_edge d t = d ! right_edge_i d t"

section \<open>Spans\<close>

text \<open>
  A \<open>Span\<close> is a slice of the document, from token \<open>span_start\<close> (the attribute
  \<open>span.start\<close>) up to but excluding token \<open>span_end\<close> (the attribute \<open>span.end\<close>).
\<close>

record span =
  span_start :: nat
  span_end :: nat

text \<open>
  \<open>doc[start:stop]\<close> clamps its bounds before it builds the span (spaCy's
  \<open>normalize_slice\<close>): \<open>start = min(length, max(0, start))\<close> and then
  \<open>stop = min(length, max(start, stop))\<close>. Both bounds are naturals here, as token
  positions are.
\<close>

definition normalize_slice :: "nat \<Rightarrow> nat \<Rightarrow> nat \<Rightarrow> nat \<times> nat" where
  "normalize_slice len start' stop =
     (let s = min len (max 0 start'); e = min len (max s stop) in (s, e))"

definition doc_slice :: "doc \<Rightarrow> nat \<Rightarrow> nat \<Rightarrow> span" where
  "doc_slice d start' stop =
     (case normalize_slice (length d) start' stop of (s, e) \<Rightarrow> \<lparr>span_start = s, span_end = e\<rparr>)"

text \<open>The tokens a span covers.\<close>

definition span_tokens :: "doc \<Rightarrow> span \<Rightarrow> token list" where
  "span_tokens d s = take (span_end s - span_start s) (drop (span_start s) d)"

text \<open>
  \<open>span.text\<close>: the texts of the covered tokens with their trailing whitespace, without
  the whitespace after the last token.
\<close>

definition span_text :: "doc \<Rightarrow> span \<Rightarrow> string" where
  "span_text d s =
     (let toks = span_tokens d s;
          text_with_ws = concat (map (\<lambda>t. tok_text t @ tok_whitespace t) toks)
      in if toks \<noteq> [] \<and> tok_whitespace (last toks) \<noteq> [] then butlast text_with_ws
         else text_with_ws)"

section \<open>extract\_terms\<close>

definition is_verb :: "token \<Rightarrow> bool" where
  "is_verb t =
     (if tok_pos t = ''VERB'' \<and> tok_dep t \<notin> {''aux'', ''auxpass'', ''neg''} then True else False)"

definition is_object :: "token \<Rightarrow> bool" where
  "is_object t = (if tok_pos t = ''NOUN'' \<and> tok_dep t = ''dobj'' then True else False)"

text \<open>
  \<open>get_verbs\<close> returns a list of lemmas or a list of tokens, as \<open>return_lemma\<close> says.
\<close>

datatype terms = Lemmas "string list" | Tokens "token list"

definition get_verbs :: "doc \<Rightarrow> bool \<Rightarrow> terms" where
  "get_verbs spacy_doc return_lemma =
     (let verbs = filter is_verb spacy_doc
      in if return_lemma then Lemmas (map tok_lemma verbs) else Tokens verbs)"

text \<open>A verb phrase is the list \<open>[token.head, token.children, token]\<close>.\<close>

type_synonym verb_phrase = "token \<times> token list \<times> token"

fun verb_phrases_loop :: "doc \<Rightarrow> token list \<Rightarrow> verb_phrase list \<Rightarrow> verb_phrase list" where
  "verb_phrases_loop d [] verb_phrases = verb_phrases"
| "verb_phrases_loop d (t # rest) verb_phrases =
     (if tok_dep t = ''dobj''
      then verb_phrases_loop d rest (verb_phrases @ [(head d t, children d t, t)])
      else verb_phrases_loop d rest verb_phrases)"

definition get_verb_phrases :: "doc \<Rightarrow> verb_phrase list" where
  "get_verb_phrases spacy_doc = verb_phrases_loop spacy_doc spacy_doc []"

section \<open>decoder\<close>

text \<open>
  The phrase returned for a direct object \<open>token\<close>:
  \<open>matched_phrase = doc[token.head.i : token.right_edge.i + 1]\<close>.
\<close>

definition matched_phrase :: "doc \<Rightarrow> token \<Rightarrow> span" where
  "matched_phrase d t = doc_slice d (tok_i (head d t)) (tok_i (right_edge d t) + 1)"

text \<open>
  The loop of \<open>match_dependent_ableist_verbs\<close> over the tokens of the document, with the
  list \<open>matched_phrases\<close> it appends to.
\<close>

fun match_loop ::
  "doc \<Rightarrow> string set \<Rightarrow> string set \<Rightarrow> token list \<Rightarrow> span list \<Rightarrow> span list" where
  "match_loop d ableist_verbs_object_dependent ableist_objects [] matched_phrases =
     matched_phrases"
| "match_loop d ableist_verbs_object_dependent ableist_objects (t # rest) matched_phrases =
     (if tok_dep t = ''dobj'' \<and> tok_lemma t \<in> ableist_objects
      then
        (if is_verb (head d t) \<and> tok_lemma (head d t) \<in> ableist_verbs_object_dependent
         then match_loop d ableist_verbs_object_dependent ableist_objects rest
                (matched_phrases @ [matched_phrase d t])
         else match_loop d ableist_verbs_object_dependent ableist_objects rest matched_phrases)
      else match_loop d ableist_verbs_object_dependent ableist_objects rest matched_phrases)"

definition match_dependent_ableist_verbs ::
  "doc \<Rightarrow> string set \<Rightarrow> string set \<Rightarrow> span list" where
  "match_dependent_ableist_verbs d ableist_verbs_object_dependent ableist_objects =
     match_loop d ableist_verbs_object_dependent ableist_objects d []"

text \<open>
  \<open>find_ableist_terms\<close> parses the text (\<open>nlp\<close>, the external parser), keeps the verbs
  whose lemma is in \<open>ABLEIST_VERBS\<close>, prints the verb phrases of the document and
  returns the matched verbs. Standard output is the list of the values printed so far;
  reading \<open>lemma_\<close> off a string raises \<open>AttributeError\<close>.
\<close>

datatype py_error = AttributeError

type_synonym stdout = "verb_phrase list list"

definition find_ableist_terms ::
  "(string \<Rightarrow> doc) \<Rightarrow> string set \<Rightarrow> string \<Rightarrow> stdout \<Rightarrow> (py_error + token list) \<times> stdout" where
  "find_ableist_terms nlp ABLEIST_VERBS job_description_text out =
     (let job_description_doc = nlp job_description_text;
          jd_verbs = get_verbs job_description_doc False
      in case jd_verbs of
           Lemmas ls \<Rightarrow>
             (if ls = []
              then (Inr [], out @ [get_verb_phrases job_description_doc])
              else (Inl AttributeError, out))
         | Tokens vs \<Rightarrow>
             (let matched_verbs = filter (\<lambda>verb. tok_lemma verb \<in> ABLEIST_VERBS) vs;
                  jd_verb_phrases = get_verb_phrases job_description_doc
              in (Inr matched_verbs, out @ [jd_verb_phrases])))"

section \<open>The join condition of the specification\<close>

text \<open>
  The three conditions of the specification for a token \<open>obj\<close> to anchor a phrase: its
  dependency label is direct object and its lemma is in the dependent-object set; its
  head has part of speech VERB and a dependency label outside auxiliary, passive
  auxiliary and negation; the head's lemma is in the dependent-verb set.
\<close>

definition join_conditions :: "doc \<Rightarrow> string set \<Rightarrow> string set \<Rightarrow> token \<Rightarrow> bool" where
  "join_conditions d dependentVerbs dependentObjects obj =
     ((tok_dep obj = ''dobj'' \<and> tok_lemma obj \<in> dependentObjects) \<and>
      (tok_pos (head d obj) = ''VERB'' \<and>
       tok_dep (head d obj) \<notin> {''aux'', ''auxpass'', ''neg''}) \<and>
      tok_lemma (head d obj) \<in> dependentVerbs)"

section \<open>Parsed sentences\<close>

definition mk_token ::
  "nat \<Rightarrow> string \<Rightarrow> string \<Rightarrow> string \<Rightarrow> string \<Rightarrow> string \<Rightarrow> nat \<Rightarrow> token" where
  "mk_token k tx ws lm ps dp h =
     \<lparr>tok_i = k, tok_text = tx, tok_whitespace = ws, tok_lemma = lm, tok_pos = ps,
      tok_dep = dp, tok_head_i = h\<rparr>"

text \<open>
  The sentence of the test of the decoder, \<open>must be able to move your hands repeatedly\<close>,
  with its parse: \<open>hands\<close> is the direct object of \<open>move\<close>, and \<open>repeatedly\<close> modifies
  \<open>move\<close>.
\<close>

definition hands_doc :: doc where
  "hands_doc =
     [mk_token 0 ''must'' '' '' ''must'' ''AUX'' ''aux'' 1,
      mk_token 1 ''be'' '' '' ''be'' ''AUX'' ''ROOT'' 1,
      mk_token 2 ''able'' '' '' ''able'' ''ADJ'' ''acomp'' 1,
      mk_token 3 ''to'' '' '' ''to'' ''PART'' ''aux'' 4,
      mk_token 4 ''move'' '' '' ''move'' ''VERB'' ''xcomp'' 2,
      mk_token 5 ''your'' '' '' ''your'' ''PRON'' ''poss'' 6,
      mk_token 6 ''hands'' '' '' ''hand'' ''NOUN'' ''dobj'' 4,
      mk_token 7 ''repeatedly'' [] ''repeatedly'' ''ADV'' ''advmod'' 4]"

text \<open>
  A question with a fronted object, \<open>Which boxes can you lift\<close>: the direct object
  \<open>boxes\<close> stands before its head \<open>lift\<close>.
\<close>

definition boxes_doc :: doc where
  "boxes_doc =
     [mk_token 0 ''Which'' '' '' ''which'' ''DET'' ''det'' 1,
      mk_token 1 ''boxes'' '' '' ''box'' ''NOUN'' ''dobj'' 4,
      mk_token 2 ''can'' '' '' ''can'' ''AUX'' ''aux'' 4,
      mk_token 3 ''you'' '' '' ''you'' ''PRON'' ''nsubj'' 4,
      mk_token 4 ''lift'' [] ''lift'' ''VERB'' ''ROOT'' 4]"

text \<open>Two clauses, each with its own verb and direct object: \<open>move your hands and lift boxes\<close>.\<close>

definition clauses_doc :: doc where
  "clauses_doc =
     [mk_token 0 ''move'' '' '' ''move'' ''VERB'' ''ROOT'' 0,
      mk_token 1 ''your'' '' '' ''your'' ''PRON'' ''poss'' 2,
      mk_token 2 ''hands'' '' '' ''hand'' ''NOUN'' ''dobj'' 0,
      mk_token 3 ''and'' '' '' ''and'' ''CCONJ'' ''cc'' 0,
      mk_token 4 ''lift'' '' '' ''lift'' ''VERB'' ''conj'' 0,
      mk_token 5 ''boxes'' [] ''box'' ''NOUN'' ''dobj'' 4]"

text \<open>A pronoun as direct object: \<open>lift it\<close>.\<close>

definition pronoun_doc :: doc where
  "pronoun_doc =
     [mk_token 0 ''lift'' '' '' ''lift'' ''VERB'' ''ROOT'' 0,
      mk_token 1 ''it'' [] ''it'' ''PRON'' ''dobj'' 0]"

text \<open>A sentence without a verb: \<open>very good\<close>.\<close>

definition verbless_doc :: doc where
  "verbless_doc =
     [mk_token 0 ''very'' '' '' ''very'' ''ADV'' ''advmod'' 1,
      mk_token 1 ''good'' [] ''good'' ''ADJ'' ''ROOT'' 1]"



text \<open>A parser that knows these sentences, and finds no token in any other text.\<close>

definition example_nlp :: "string \<Rightarrow> doc" where
  "example_nlp job_description_text =
     (if job_description_text = ''must be able to move your hands repeatedly'' then hands_doc
      else if job_description_text = ''Which boxes can you lift'' then boxes_doc
      else if job_description_text = ''move your hands and lift boxes'' then clauses_doc
      else if job_description_text = ''lift it'' then pronoun_doc
      else if job_description_text = ''very good'' then verbless_doc
      else [])"

text \<open>
  The three conditions of the specification for a token to be a standalone match: part
  of speech VERB, a dependency label outside auxiliary, passive auxiliary and negation,
  and a lemma in the set of ableist verbs.
\<close>

definition standalone_conditions :: "string set \<Rightarrow> token \<Rightarrow> bool" where
  "standalone_conditions ableistVerbs t =
     (tok_pos t = ''VERB'' \<and> tok_dep t \<notin> {''aux'', ''auxpass'', ''neg''} \<and>
      tok_lemma t \<in> ableistVerbs)"

section \<open>Properties of documents, slices and the loop\<close>

lemma match_loop_filter:
  "match_loop d vs os ts acc = acc @ map (matched_phrase d) (filter (join_conditions d vs os) ts)"
  by (induction ts arbitrary: acc) (simp_all add: join_conditions_def is_verb_def)

lemma match_dependent_filter:
  "match_dependent_ableist_verbs d vs os = map (matched_phrase d) (filter (join_conditions d vs os) d)"
  by (simp add: match_dependent_ableist_verbs_def match_loop_filter)

lemma wf_doc_nth: "wf_doc d \<Longrightarrow> k < length d \<Longrightarrow> tok_i (d ! k) = k"
proof -
  assume w: "wf_doc d" and k: "k < length d"
  from w have "map tok_i d = [0..<length d]" by (simp add: wf_doc_def)
  then have "map tok_i d ! k = [0..<length d] ! k" by simp
  with k show ?thesis by simp
qed

lemma wf_doc_mem:
  assumes "wf_doc d" "t \<in> set d"
  shows "tok_i t < length d" and "d ! tok_i t = t" and "tok_head_i t < length d"
proof -
  from assms(2) obtain k where k: "k < length d" "d ! k = t"
    by (auto simp: in_set_conv_nth)
  with assms(1) have "tok_i t = k" using wf_doc_nth by blast
  with k show "tok_i t < length d" and "d ! tok_i t = t" by simp_all
  from assms show "tok_head_i t < length d"
    by (simp add: wf_doc_def list_all_iff)
qed


lemma fold_max_ge: "(a::nat) \<le> fold max xs a"
  by (induction xs arbitrary: a) (auto intro: order_trans [OF max.cobounded2])

lemma fold_max_mem: "fold max xs (a::nat) = a \<or> fold max xs a \<in> set xs"
  by (induction xs arbitrary: a) (auto simp: max_def)

lemma right_edge_i_ge: "tok_i t \<le> right_edge_i d t"
  by (simp add: right_edge_i_def fold_max_ge)

lemma right_edge_i_less: "tok_i t < length d \<Longrightarrow> right_edge_i d t < length d"
  using fold_max_mem [of "filter (\<lambda>j. descends (length d) d (tok_i t) j) [0..<length d]" "tok_i t"]
  by (auto simp: right_edge_i_def)

lemma wf_doc_right_edge_i:
  "wf_doc d \<Longrightarrow> t \<in> set d \<Longrightarrow> tok_i (right_edge d t) = right_edge_i d t"
  by (simp add: right_edge_def wf_doc_nth right_edge_i_less wf_doc_mem(1))

lemma doc_slice_bounds:
  "span_start (doc_slice d a b) \<le> span_end (doc_slice d a b) \<and> span_end (doc_slice d a b) \<le> length d"
  by (simp add: doc_slice_def normalize_slice_def Let_def)

lemma doc_slice_exact:
  "a \<le> b \<Longrightarrow> b \<le> length d \<Longrightarrow> doc_slice d a b = \<lparr>span_start = a, span_end = b\<rparr>"
  by (simp add: doc_slice_def normalize_slice_def Let_def)

lemma wf_doc_sorted_filter: "wf_doc d \<Longrightarrow> sorted_wrt (<) (map tok_i (filter P d))"
proof -
  assume "wf_doc d"
  then have "sorted_wrt (<) (map tok_i d)" by (simp add: wf_doc_def)
  then have "sorted_wrt (\<lambda>x y. tok_i x < tok_i y) d" by (simp add: sorted_wrt_map)
  then have "sorted_wrt (\<lambda>x y. tok_i x < tok_i y) (filter P d)" by (rule sorted_wrt_filter)
  then show ?thesis by (simp add: sorted_wrt_map)
qed

lemma join_conditions_mem:
  "obj \<in> set d \<Longrightarrow> join_conditions d vs os obj \<Longrightarrow>
    matched_phrase d obj \<in> set (match_dependent_ableist_verbs d vs os)"
  by (simp add: match_dependent_filter)

lemma matched_phrase_exact:
  assumes "wf_doc d" "obj \<in> set d" "tok_i (head d obj) \<le> tok_i (right_edge d obj)"
  shows "matched_phrase d obj =
    \<lparr>span_start = tok_i (head d obj), span_end = tok_i (right_edge d obj) + 1\<rparr>"
proof -
  have "tok_i (right_edge d obj) < length d"
    using assms(1,2) by (simp add: wf_doc_right_edge_i right_edge_i_less wf_doc_mem(1))
  then show ?thesis
    using assms(3) by (simp add: matched_phrase_def doc_slice_exact)
qed

lemma wf_doc_right_edge_ge: "wf_doc d \<Longrightarrow> t \<in> set d \<Longrightarrow> tok_i t \<le> tok_i (right_edge d t)"
  by (simp add: wf_doc_right_edge_i right_edge_i_ge)

lemma matched_spans_bounds:
  "s \<in> set (match_dependent_ableist_verbs d vs os) \<Longrightarrow>
     span_start s \<le> span_end s \<and> span_end s \<le> length d"
  by (auto simp: match_dependent_filter matched_phrase_def doc_slice_bounds)

lemma filter_is_verb_lemma:
  "filter (\<lambda>verb. tok_lemma verb \<in> vs) (filter is_verb ts) =
     filter (standalone_conditions vs) ts"
  by (induction ts) (auto simp: standalone_conditions_def is_verb_def)

lemma find_ableist_terms_eq:
  "find_ableist_terms nlp vs job_text out =
     (Inr (filter (standalone_conditions vs) (nlp job_text)), out @ [get_verb_phrases (nlp job_text)])"
  by (simp add: find_ableist_terms_def get_verbs_def Let_def filter_is_verb_lemma
      del: filter_filter)



section \<open>The test sentence\<close>

text \<open>
  Claim C9. On the parsed sentence \<open>must be able to move your hands repeatedly\<close>, where
  \<open>hands\<close> is the direct object of \<open>move\<close> and \<open>repeatedly\<close> depends on \<open>move\<close>, with the
  dependent verbs \<open>{move}\<close> and the dependent objects \<open>{hand}\<close>, the dependent matcher
  returns exactly one phrase; it covers the three tokens \<open>move\<close>, \<open>your\<close>, \<open>hands\<close>, its
  text is \<open>move your hands\<close>, and \<open>repeatedly\<close> is left out.
\<close>

theorem test_sentence_phrase:
  "match_dependent_ableist_verbs hands_doc {''move''} {''hand''} =
     [\<lparr>span_start = 4, span_end = 7\<rparr>]
   \<and> map (span_text hands_doc)
        (match_dependent_ableist_verbs hands_doc {''move''} {''hand''}) =
       [''move your hands'']
   \<and> map (map tok_text \<circ> span_tokens hands_doc)
        (match_dependent_ableist_verbs hands_doc {''move''} {''hand''}) =
       [[''move'', ''your'', ''hands'']]
   \<and> tok_dep (hands_doc ! 6) = ''dobj'' \<and> tok_head_i (hands_doc ! 6) = 4
   \<and> tok_text (hands_doc ! 7) = ''repeatedly'' \<and> tok_head_i (hands_doc ! 7) = 4"
  by code_simp

section \<open>The span of a matched phrase\<close>

text \<open>
  Claim C2, as amended. In a parsed sentence, let \<open>obj\<close> be a token with dependency label
  direct object whose lemma is in the dependent-object set, whose head is a verb for
  \<open>is_verb\<close> and has its lemma in the dependent-verb set. If the head does not stand to
  the right of the rightmost descendant of \<open>obj\<close>, the dependent matcher emits a span
  that starts at the index of the head verb and ends (exclusively) at the index of the
  rightmost descendant of \<open>obj\<close> plus one.
\<close>

theorem dependent_matcher_span:
  assumes "wf_doc d" and "obj \<in> set d"
    and "tok_dep obj = ''dobj''" and "tok_lemma obj \<in> os"
    and "is_verb (head d obj)" and "tok_lemma (head d obj) \<in> vs"
    and "tok_i (head d obj) \<le> tok_i (right_edge d obj)"
  shows "\<exists>s \<in> set (match_dependent_ableist_verbs d vs os).
           span_start s = tok_i (head d obj) \<and> span_end s = tok_i (right_edge d obj) + 1"
proof -
  have "join_conditions d vs os obj"
    using assms(3-6) by (simp add: join_conditions_def is_verb_def split: if_splits)
  then have "matched_phrase d obj \<in> set (match_dependent_ableist_verbs d vs os)"
    using assms(2) by (rule join_conditions_mem [rotated])
  moreover have "matched_phrase d obj =
      \<lparr>span_start = tok_i (head d obj), span_end = tok_i (right_edge d obj) + 1\<rparr>"
    using assms(1,2,7) by (rule matched_phrase_exact)
  ultimately show ?thesis by force
qed

text \<open>
  On the test sentence the span of \<open>hands\<close> is \<open>4:7\<close>; the rightmost descendant of the
  verb \<open>move\<close> is \<open>repeatedly\<close>, which would have given the end \<open>8\<close>.
\<close>

theorem dependent_matcher_span_witness:
  "wf_doc hands_doc \<and> hands_doc ! 6 \<in> set hands_doc
   \<and> tok_dep (hands_doc ! 6) = ''dobj'' \<and> tok_lemma (hands_doc ! 6) \<in> {''hand''}
   \<and> is_verb (head hands_doc (hands_doc ! 6))
   \<and> tok_lemma (head hands_doc (hands_doc ! 6)) \<in> {''move''}
   \<and> tok_i (head hands_doc (hands_doc ! 6)) = 4
   \<and> tok_i (right_edge hands_doc (hands_doc ! 6)) + 1 = 7
   \<and> tok_i (right_edge hands_doc (head hands_doc (hands_doc ! 6))) + 1 = 8
   \<and> (\<exists>s \<in> set (match_dependent_ableist_verbs hands_doc {''move''} {''hand''}).
         span_start s = 4 \<and> span_end s = 7)"
proof -
  have h1: "wf_doc hands_doc" by code_simp
  have h2: "hands_doc ! 6 \<in> set hands_doc" by code_simp
  have h3: "tok_dep (hands_doc ! 6) = ''dobj''" by code_simp
  have h4: "tok_lemma (hands_doc ! 6) \<in> {''hand''}" by code_simp
  have h5: "is_verb (head hands_doc (hands_doc ! 6))" by code_simp
  have h6: "tok_lemma (head hands_doc (hands_doc ! 6)) \<in> {''move''}" by code_simp
  have a: "tok_i (head hands_doc (hands_doc ! 6)) = 4" by code_simp
  have b: "tok_i (right_edge hands_doc (hands_doc ! 6)) + 1 = 7" by code_simp
  have c: "tok_i (right_edge hands_doc (head hands_doc (hands_doc ! 6))) + 1 = 8" by code_simp
  have h7: "tok_i (head hands_doc (hands_doc ! 6)) \<le> tok_i (right_edge hands_doc (hands_doc ! 6))"
    using a b by simp
  from dependent_matcher_span [OF h1 h2 h3 h4 h5 h6 h7]
  have "\<exists>s \<in> set (match_dependent_ableist_verbs hands_doc {''move''} {''hand''}).
         span_start s = 4 \<and> span_end s = 7"
    unfolding a b .
  with h1 h2 h3 h4 h5 h6 a b c show ?thesis by blast
qed

text \<open>
  Without the condition on the position of the head the claim fails. In
  \<open>Which boxes can you lift\<close> the object \<open>boxes\<close> (index 1, its rightmost descendant
  too) satisfies the three conditions and its head \<open>lift\<close> has index 4; the slice
  \<open>doc[4:2]\<close> is clamped to the empty span \<open>4:4\<close>, whose end is not \<open>2\<close>.
\<close>

theorem fronted_object_span_end:
  "wf_doc boxes_doc \<and> boxes_doc ! 1 \<in> set boxes_doc
   \<and> tok_dep (boxes_doc ! 1) = ''dobj'' \<and> tok_lemma (boxes_doc ! 1) \<in> {''box''}
   \<and> is_verb (head boxes_doc (boxes_doc ! 1))
   \<and> tok_lemma (head boxes_doc (boxes_doc ! 1)) \<in> {''lift''}
   \<and> tok_i (head boxes_doc (boxes_doc ! 1)) = 4
   \<and> tok_i (right_edge boxes_doc (boxes_doc ! 1)) + 1 = 2
   \<and> map span_end (match_dependent_ableist_verbs boxes_doc {''lift''} {''box''}) = [4]"
  by code_simp

section \<open>When the dependent matcher emits a span\<close>

text \<open>
  Claim C3. For every parsed sentence and lexicon, the dependent matcher emits a span
  anchored at a token \<open>obj\<close> exactly when the three join conditions hold: \<open>obj\<close> is a
  direct object with its lemma in the dependent-object set, its head has part of speech
  VERB and a dependency label outside auxiliary, passive auxiliary and negation, and the
  head's lemma is in the dependent-verb set. The result is one phrase for each such
  token, and the step of the loop at \<open>obj\<close> adds a phrase if and only if the conditions
  hold. In particular a direct object whose lemma is in the object set and whose head's
  lemma is not in the verb set adds nothing, and a sentence all of whose listed direct
  objects are so gives no phrase at all.
\<close>

theorem dependent_matcher_iff_join_conditions:
  "match_dependent_ableist_verbs d vs os =
     map (matched_phrase d) (filter (join_conditions d vs os) d)
   \<and> match_loop d vs os [obj] [] =
       (if join_conditions d vs os obj then [matched_phrase d obj] else [])
   \<and> (tok_dep obj = ''dobj'' \<and> tok_lemma obj \<in> os \<and> tok_lemma (head d obj) \<notin> vs
        \<longrightarrow> match_loop d vs os [obj] [] = [])
   \<and> ((\<forall>t \<in> set d. tok_dep t = ''dobj'' \<and> tok_lemma t \<in> os \<longrightarrow> tok_lemma (head d t) \<notin> vs)
        \<longrightarrow> match_dependent_ableist_verbs d vs os = [])"
proof -
  have a: "match_dependent_ableist_verbs d vs os =
     map (matched_phrase d) (filter (join_conditions d vs os) d)"
    by (rule match_dependent_filter)
  have b: "match_loop d vs os [obj] [] =
       (if join_conditions d vs os obj then [matched_phrase d obj] else [])"
    by (simp add: match_loop_filter)
  have c: "tok_dep obj = ''dobj'' \<and> tok_lemma obj \<in> os \<and> tok_lemma (head d obj) \<notin> vs
        \<longrightarrow> match_loop d vs os [obj] [] = []"
    by (simp add: match_loop_filter join_conditions_def)
  have e: "(\<forall>t \<in> set d. tok_dep t = ''dobj'' \<and> tok_lemma t \<in> os \<longrightarrow> tok_lemma (head d t) \<notin> vs)
        \<longrightarrow> match_dependent_ableist_verbs d vs os = []"
    by (auto simp: match_dependent_filter join_conditions_def filter_empty_conv)
  from a b c e show ?thesis by blast
qed

text \<open>
  On the test sentence with the dependent verbs \<open>{lift}\<close>: \<open>hands\<close> is a listed direct
  object, its head \<open>move\<close> is not a listed verb, and nothing is matched.
\<close>

theorem dependent_matcher_iff_join_conditions_witness:
  "tok_dep (hands_doc ! 6) = ''dobj'' \<and> tok_lemma (hands_doc ! 6) \<in> {''hand''}
   \<and> tok_lemma (head hands_doc (hands_doc ! 6)) \<notin> {''lift''}
   \<and> match_loop hands_doc {''lift''} {''hand''} [hands_doc ! 6] [] = []
   \<and> list_all (\<lambda>t. \<not> (tok_dep t = ''dobj'' \<and> tok_lemma t \<in> {''hand''}) \<or> tok_lemma (head hands_doc t) \<notin> {''lift''}) hands_doc
   \<and> match_dependent_ableist_verbs hands_doc {''lift''} {''hand''} = []"
proof -
  have h1: "tok_dep (hands_doc ! 6) = ''dobj'' \<and> tok_lemma (hands_doc ! 6) \<in> {''hand''}
     \<and> tok_lemma (head hands_doc (hands_doc ! 6)) \<notin> {''lift''}" by code_simp
  have h2: "list_all (\<lambda>t. \<not> (tok_dep t = ''dobj'' \<and> tok_lemma t \<in> {''hand''}) \<or> tok_lemma (head hands_doc t) \<notin> {''lift''}) hands_doc"
    by code_simp
  then have h3: "\<forall>t \<in> set hands_doc. tok_dep t = ''dobj'' \<and> tok_lemma t \<in> {''hand''}
      \<longrightarrow> tok_lemma (head hands_doc t) \<notin> {''lift''}"
    unfolding list_all_iff by blast
  note t = dependent_matcher_iff_join_conditions [of hands_doc "{''lift''}" "{''hand''}" "hands_doc ! 6"]
  from t h1 have r1: "match_loop hands_doc {''lift''} {''hand''} [hands_doc ! 6] [] = []" by blast
  from t h3 have r2: "match_dependent_ableist_verbs hands_doc {''lift''} {''hand''} = []" by blast
  from h1 h2 r1 r2 show ?thesis by blast
qed

section \<open>The part of speech of the object\<close>

text \<open>
  Claim C10. The dependent matcher does not look at the part of speech of the object:
  a direct object with a listed lemma, whose head is a verb with a listed lemma, anchors
  a match also when its part of speech is not NOUN, that is when \<open>is_object\<close> rejects
  it; the matcher never calls \<open>is_object\<close>.
\<close>

theorem object_pos_unconstrained:
  assumes "obj \<in> set d"
    and "tok_dep obj = ''dobj''" and "tok_lemma obj \<in> os"
    and "is_verb (head d obj)" and "tok_lemma (head d obj) \<in> vs"
    and "tok_pos obj \<noteq> ''NOUN''"
  shows "\<not> is_object obj \<and> matched_phrase d obj \<in> set (match_dependent_ableist_verbs d vs os)"
proof -
  have "join_conditions d vs os obj"
    using assms(2-5) by (simp add: join_conditions_def is_verb_def split: if_splits)
  then have "matched_phrase d obj \<in> set (match_dependent_ableist_verbs d vs os)"
    using assms(1) by (rule join_conditions_mem [rotated])
  moreover have "\<not> is_object obj" using assms(6) by (simp add: is_object_def)
  ultimately show ?thesis by simp
qed

text \<open>In \<open>lift it\<close> the object is a pronoun, and the phrase \<open>0:2\<close> is matched.\<close>

theorem object_pos_unconstrained_witness:
  "pronoun_doc ! 1 \<in> set pronoun_doc
   \<and> tok_dep (pronoun_doc ! 1) = ''dobj'' \<and> tok_lemma (pronoun_doc ! 1) \<in> {''it''}
   \<and> is_verb (head pronoun_doc (pronoun_doc ! 1))
   \<and> tok_lemma (head pronoun_doc (pronoun_doc ! 1)) \<in> {''lift''}
   \<and> tok_pos (pronoun_doc ! 1) = ''PRON''
   \<and> \<not> is_object (pronoun_doc ! 1)
   \<and> matched_phrase pronoun_doc (pronoun_doc ! 1) = \<lparr>span_start = 0, span_end = 2\<rparr>
   \<and> matched_phrase pronoun_doc (pronoun_doc ! 1)
       \<in> set (match_dependent_ableist_verbs pronoun_doc {''lift''} {''it''})"
proof -
  have h1: "pronoun_doc ! 1 \<in> set pronoun_doc" by code_simp
  have h2: "tok_dep (pronoun_doc ! 1) = ''dobj''" by code_simp
  have h3: "tok_lemma (pronoun_doc ! 1) \<in> {''it''}" by code_simp
  have h4: "is_verb (head pronoun_doc (pronoun_doc ! 1))" by code_simp
  have h5: "tok_lemma (head pronoun_doc (pronoun_doc ! 1)) \<in> {''lift''}" by code_simp
  have p: "tok_pos (pronoun_doc ! 1) = ''PRON''" by code_simp
  have h6: "tok_pos (pronoun_doc ! 1) \<noteq> ''NOUN''" by code_simp
  have e: "matched_phrase pronoun_doc (pronoun_doc ! 1) = \<lparr>span_start = 0, span_end = 2\<rparr>"
    by code_simp
  from object_pos_unconstrained [OF h1 h2 h3 h4 h5 h6] h1 h2 h3 h4 h5 p e
  show ?thesis by blast
qed

section \<open>Objects that stand before their verb\<close>

text \<open>
  Claim C5 says that every span the dependent matcher emits has \<open>start < end\<close> and
  \<open>end \<le> length\<close>. The bounds \<open>start \<le> end \<le> length\<close> hold for every span
  (\<open>matched_spans_bounds\<close>), but a direct object that stands before its head verb gives
  an empty span: for \<open>Which boxes can you lift\<close> the matcher returns the one span
  \<open>4:4\<close>, whose text is empty, where the phrase of the verb and its object was meant.
\<close>

theorem fronted_object_empty_span:
  "match_dependent_ableist_verbs (example_nlp ''Which boxes can you lift'') {''lift''} {''box''} =
     [\<lparr>span_start = 4, span_end = 4\<rparr>]
   \<and> map (span_text (example_nlp ''Which boxes can you lift''))
       (match_dependent_ableist_verbs (example_nlp ''Which boxes can you lift'') {''lift''} {''box''})
      = [[]]
   \<and> length (example_nlp ''Which boxes can you lift'') = 5"
  by code_simp

section \<open>One span for each qualifying object\<close>




section \<open>The standalone matcher\<close>

text \<open>
  Claim C4. For every parsed sentence and lexicon, the standalone matcher (the verbs
  that \<open>find_ableist_terms\<close> returns) yields exactly the tokens with part of speech
  VERB, with a dependency label of their own outside auxiliary, passive auxiliary and
  negation, and with a lemma in the set of ableist verbs, in the order of the sentence,
  which is ascending token index; a token with the dependency label auxiliary is never
  in the output, whatever its lemma.
\<close>

theorem standalone_matcher:
  "fst (find_ableist_terms nlp ableistVerbs job_text out) =
     Inr (filter (standalone_conditions ableistVerbs) (nlp job_text))
   \<and> (wf_doc (nlp job_text) \<longrightarrow>
        sorted_wrt (<) (map tok_i (filter (standalone_conditions ableistVerbs) (nlp job_text))))
   \<and> (tok_dep t = ''aux'' \<longrightarrow>
        t \<notin> set (filter (standalone_conditions ableistVerbs) (nlp job_text)))"
proof -
  have a: "fst (find_ableist_terms nlp ableistVerbs job_text out) =
     Inr (filter (standalone_conditions ableistVerbs) (nlp job_text))"
    by (simp add: find_ableist_terms_eq)
  have b: "wf_doc (nlp job_text) \<longrightarrow>
        sorted_wrt (<) (map tok_i (filter (standalone_conditions ableistVerbs) (nlp job_text)))"
    by (simp add: wf_doc_sorted_filter)
  have c: "tok_dep t = ''aux'' \<longrightarrow>
        t \<notin> set (filter (standalone_conditions ableistVerbs) (nlp job_text))"
    by (simp add: standalone_conditions_def)
  from a b c show ?thesis by blast
qed

text \<open>
  On the test sentence with the ableist verbs \<open>{move, must}\<close>: the auxiliary \<open>must\<close> is
  listed and is not returned; the result is the token \<open>move\<close>.
\<close>

theorem standalone_matcher_witness:
  "wf_doc (example_nlp ''must be able to move your hands repeatedly'')
   \<and> tok_dep (hands_doc ! 0) = ''aux'' \<and> tok_lemma (hands_doc ! 0) \<in> {''move'', ''must''}
   \<and> hands_doc ! 0 \<in> set (example_nlp ''must be able to move your hands repeatedly'')
   \<and> filter (standalone_conditions {''move'', ''must''})
        (example_nlp ''must be able to move your hands repeatedly'') = [hands_doc ! 4]
   \<and> fst (find_ableist_terms example_nlp {''move'', ''must''}
        ''must be able to move your hands repeatedly'' []) = Inr [hands_doc ! 4]
   \<and> sorted_wrt (<) (map tok_i [hands_doc ! 4])
   \<and> hands_doc ! 0 \<notin> set [hands_doc ! 4]"
proof -
  have h1: "wf_doc (example_nlp ''must be able to move your hands repeatedly'')" by code_simp
  have h2: "tok_dep (hands_doc ! 0) = ''aux''" by code_simp
  have h3: "tok_lemma (hands_doc ! 0) \<in> {''move'', ''must''}" by code_simp
  have h4: "hands_doc ! 0 \<in> set (example_nlp ''must be able to move your hands repeatedly'')"
    by code_simp
  have e: "filter (standalone_conditions {''move'', ''must''})
        (example_nlp ''must be able to move your hands repeatedly'') = [hands_doc ! 4]"
    by code_simp
  note t = standalone_matcher [where nlp = example_nlp and ableistVerbs = "{''move'', ''must''}"
      and job_text = "''must be able to move your hands repeatedly''" and out = "[]"
      and t = "hands_doc ! 0"]
  from t have r1: "fst (find_ableist_terms example_nlp {''move'', ''must''}
        ''must be able to move your hands repeatedly'' []) = Inr [hands_doc ! 4]"
    unfolding e by blast
  from t h1 have r2: "sorted_wrt (<) (map tok_i [hands_doc ! 4])" unfolding e by blast
  from t h2 have r3: "hands_doc ! 0 \<notin> set [hands_doc ! 4]" unfolding e by blast
  from h1 h2 h3 h4 e r1 r2 r3 show ?thesis by blast
qed

section \<open>Sentences without tokens or without verbs\<close>

text \<open>
  Claim C7. For every lexicon, a sentence with no tokens makes both matchers return the
  empty sequence and not an error, and for every sentence without a token of part of
  speech VERB the standalone matcher returns the empty sequence.
\<close>

theorem empty_and_verbless:
  "(nlp job_text = [] \<longrightarrow> fst (find_ableist_terms nlp ableistVerbs job_text out) = Inr [])
   \<and> match_dependent_ableist_verbs [] vs os = []
   \<and> ((\<forall>t \<in> set (nlp' job_text'). tok_pos t \<noteq> ''VERB'') \<longrightarrow>
        fst (find_ableist_terms nlp' ableistVerbs job_text' out') = Inr [])"
proof -
  have a: "nlp job_text = [] \<longrightarrow> fst (find_ableist_terms nlp ableistVerbs job_text out) = Inr []"
    by (simp add: find_ableist_terms_eq)
  have b: "match_dependent_ableist_verbs [] vs os = []"
    by (simp add: match_dependent_ableist_verbs_def)
  have c: "(\<forall>t \<in> set (nlp' job_text'). tok_pos t \<noteq> ''VERB'') \<longrightarrow>
        fst (find_ableist_terms nlp' ableistVerbs job_text' out') = Inr []"
    by (simp add: find_ableist_terms_eq standalone_conditions_def filter_empty_conv)
  from a b c show ?thesis by blast
qed

text \<open>The empty text has no tokens, and \<open>very good\<close> has two tokens and no verb.\<close>

theorem empty_and_verbless_witness:
  "example_nlp [] = []
   \<and> fst (find_ableist_terms example_nlp {''move''} [] []) = Inr []
   \<and> example_nlp ''very good'' = verbless_doc \<and> length verbless_doc = 2
   \<and> list_all (\<lambda>t. tok_pos t \<noteq> ''VERB'') (example_nlp ''very good'')
   \<and> fst (find_ableist_terms example_nlp {''move''} ''very good'' []) = Inr []"
proof -
  have h1: "example_nlp [] = []" by code_simp
  have h2: "list_all (\<lambda>t. tok_pos t \<noteq> ''VERB'') (example_nlp ''very good'')" by code_simp
  then have h3: "\<forall>t \<in> set (example_nlp ''very good''). tok_pos t \<noteq> ''VERB''"
    unfolding list_all_iff .
  have e: "example_nlp ''very good'' = verbless_doc \<and> length verbless_doc = 2" by code_simp
  note t = empty_and_verbless [where nlp = example_nlp and job_text = "[]" and ableistVerbs = "{''move''}"
      and out = "[]" and nlp' = example_nlp and job_text' = "''very good''" and out' = "[]"]
  from t h1 have r1: "fst (find_ableist_terms example_nlp {''move''} [] []) = Inr []" by blast
  from t h3 have r2: "fst (find_ableist_terms example_nlp {''move''} ''very good'' []) = Inr []"
    by blast
  from h1 h2 e r1 r2 show ?thesis by blast
qed

section \<open>Repeated runs\<close>


section \<open>What the entry point returns\<close>

text \<open>
  Claim C1 says that \<open>find_ableist_terms\<close> returns the standalone matches followed by
  the phrase matches. It returns the standalone matches alone: on the test sentence with
  the ableist verbs \<open>{lift}\<close> it returns the empty list, although the dependent matcher
  finds the phrase \<open>4:7\<close> in the same document for the verbs \<open>{move}\<close> and the objects
  \<open>{hand}\<close>.
\<close>

theorem phrases_not_returned:
  "fst (find_ableist_terms example_nlp {''lift''}
      ''must be able to move your hands repeatedly'' []) = Inr []
   \<and> match_dependent_ableist_verbs
       (example_nlp ''must be able to move your hands repeatedly'') {''move''} {''hand''} =
      [\<lparr>span_start = 4, span_end = 7\<rparr>]"
  by code_simp

end
